theory Spec2Isabelle
  imports Main "HOL-Library.Sublist"
begin

section \<open>Python values\<close>

text \<open>
  A Python \<open>str\<close> is a sequence of Unicode code points, so it is modelled as a list of
  natural numbers; \<open>str\<close> turns an ASCII literal into such a list. \<open>bytes\<close> are kept
  apart from \<open>str\<close>: only \<open>decode\<close> leads from one to the other.
\<close>

type_synonym pystr = "nat list"

type_synonym bytes = "nat list"

definition str :: "string \<Rightarrow> pystr" where
  "str s = map of_char s"

text \<open>\<open>target in line\<close> on strings: \<open>target\<close> occurs in \<open>line\<close> as a substring.\<close>

fun contains :: "pystr \<Rightarrow> pystr \<Rightarrow> bool" where
  "contains target [] = (target = [])"
| "contains target (c # cs) = (prefix target (c # cs) \<or> contains target cs)"

text \<open>
  The faults that can leave a function of \<open>aider/linter.py\<close>: the two that the module's own
  expressions raise, the one that the interpreter raises when the module's recursion goes
  too deep, and \<open>Fault\<close> for whatever a collaborator outside the module raises (the
  argument is the exception's class name).
\<close>

datatype pyerr = AttributeError | TypeError | RecursionError | Fault pystr

text \<open>
  Calls that leave the module are logged, so that "this step is not attempted" is a
  statement about the log. A computation is the log of its calls and either the fault
  that ended it or its value.
\<close>

datatype event =
    EvReadText pystr
  | EvParse pystr
  | EvTreeContext pystr
  | EvCompile pystr
  | EvSubprocess "pystr list"

type_synonym 'a io = "event list \<times> (pyerr + 'a)"

definition io_ret :: "'a \<Rightarrow> 'a io" where
  "io_ret x = ([], Inr x)"

definition io_call :: "event \<Rightarrow> pyerr + 'a \<Rightarrow> 'a io" where
  "io_call ev r = ([ev], r)"

definition io_bind :: "'a io \<Rightarrow> ('a \<Rightarrow> 'b io) \<Rightarrow> 'b io" where
  "io_bind m f =
     (case m of
        (t, Inl e) \<Rightarrow> (t, Inl e)
      | (t, Inr x) \<Rightarrow> (case f x of (t', r) \<Rightarrow> (t @ t', r)))"

section \<open>The collaborators of the module\<close>

text \<open>A tree-sitter node, with the four attributes that \<open>traverse_tree\<close> reads.\<close>

datatype node =
  Node (node_type: pystr) (is_missing: bool) (start_point: "int \<times> int") (children: "node list")

text \<open>The keyword arguments of \<open>grep_ast.TreeContext\<close>.\<close>

record tc_options =
  color :: bool
  line_number :: bool
  child_context :: bool
  last_line :: bool
  margin :: int
  mark_lois :: bool
  loi_pad :: int
  show_top_of_file_parent_scope :: bool

text \<open>
  An exception object caught by \<open>except Exception\<close>. An attribute of a Python object is
  absent, \<open>None\<close> or (here) an integer.
\<close>

datatype attr = Absent | PyNone | PyInt int

record exc =
  exc_class :: pystr
  lineno :: attr
  end_lineno :: attr

datatype compile_outcome = Compiled | Raised exc

text \<open>
  \<open>subprocess.check_output\<close> returns the output on exit status zero, raises
  \<open>CalledProcessError\<close> (return code, output) on any other status, and raises something
  else when the process cannot be started.
\<close>

datatype proc_outcome =
    Completed bytes
  | CalledProcessError int bytes
  | SpawnFault pyerr

text \<open>
  Everything the module imports and calls: \<open>grep_ast\<close>, \<open>tree_sitter_languages\<close>,
  \<open>os.path\<close>, \<open>pathlib\<close>, \<open>subprocess\<close>, \<open>bytes.decode\<close>, the built-in \<open>compile\<close> and
  \<open>traceback\<close>. \<open>parser_parse lang code\<close> is \<open>get_parser(lang).parse(bytes(code, "utf-8")).root_node\<close>;
  \<open>TreeContext opts fname code lois\<close> is the construction of the context object, followed
  by \<open>add_lines_of_interest(lois)\<close>, \<open>add_context()\<close> and \<open>format()\<close>. \<open>stack_room\<close> is the
  interpreter's part: the number of nested calls still allowed where \<open>basic_lint\<close> calls
  \<open>traverse_tree\<close> (\<open>sys.getrecursionlimit()\<close> less the frames in use).
\<close>

record env =
  filename_to_lang :: "pystr \<Rightarrow> pystr option"
  parser_parse :: "pystr \<Rightarrow> pystr \<Rightarrow> pyerr + node"
  TreeContext :: "tc_options \<Rightarrow> pystr \<Rightarrow> pystr \<Rightarrow> int set \<Rightarrow> pyerr + pystr"
  relpath :: "pystr \<Rightarrow> pystr \<Rightarrow> pyerr + pystr"
  read_text :: "pystr \<Rightarrow> pystr \<Rightarrow> pyerr + pystr"
  check_output :: "pystr list \<Rightarrow> pystr option \<Rightarrow> proc_outcome"
  decode :: "bytes \<Rightarrow> pyerr + pystr"
  compile :: "pystr \<Rightarrow> pystr \<Rightarrow> compile_outcome"
  format_exception :: "exc \<Rightarrow> pystr list"
  stack_room :: nat

section \<open>\<open>traverse_tree\<close>\<close>

text \<open>
  \<^verbatim>\<open>
  def traverse_tree(node):
      errors = []
      if node.type == "ERROR" or node.is_missing:
          line_no = node.start_point[0]
          errors.append(line_no)
      for child in node.children:
          errors += traverse_tree(child)
      return errors
  \<close>
  The function calls itself once for each level of the tree and has no guard of its own,
  so the interpreter's recursion limit is part of its behaviour. The first argument is
  the number of nested calls that the interpreter still allows: with none left the call
  raises \<open>RecursionError\<close>, and a fault raised for a child ends the loop and the call.
\<close>

fun traverse_tree :: "nat \<Rightarrow> node \<Rightarrow> pyerr + int list" where
  "traverse_tree 0 node = Inl RecursionError"
| "traverse_tree (Suc room) (Node ty missing sp cs) =
     foldl (\<lambda>acc child.
              case acc of
                Inl e \<Rightarrow> Inl e
              | Inr errors \<Rightarrow>
                  (case traverse_tree room child of
                     Inl e \<Rightarrow> Inl e
                   | Inr found \<Rightarrow> Inr (errors @ found)))
       (Inr (if ty = str ''ERROR'' \<or> missing then [] @ [fst sp] else []))
       cs"

text \<open>
  The nodes of a tree, the root first and then the nodes of each child in order; the
  number of levels of a tree; and what the scanner looks for at one node.
\<close>

fun nodes :: "node \<Rightarrow> node list" where
  "nodes (Node ty missing sp cs) = Node ty missing sp cs # concat (map nodes cs)"

fun height :: "node \<Rightarrow> nat" where
  "height (Node ty missing sp cs) = Suc (Max (insert 0 (height ` set cs)))"

definition is_error :: "node \<Rightarrow> bool" where
  "is_error n = (node_type n = str ''ERROR'' \<or> is_missing n)"

definition start_line :: "node \<Rightarrow> int" where
  "start_line n = fst (start_point n)"

section \<open>\<open>tree_context\<close>\<close>

text \<open>
  \<^verbatim>\<open>
  def tree_context(fname, code, line_nums):
      context = TreeContext(fname, code, color=False, line_number=True,
          child_context=False, last_line=False, margin=0, mark_lois=True,
          loi_pad=5, show_top_of_file_parent_scope=False)
      line_nums = set(line_nums)
      context.add_lines_of_interest(line_nums)
      context.add_context()
      s = "s" if len(line_nums) > 1 else ""
      output = f"# Fix the error{s}, see relevant line{s} below marked with <U+2588>.\n\n"
      output += fname + ":\n"
      output += context.format()
      return output
  \<close>
  The marker glyph is the code point U+2588 (9608).
\<close>

definition tree_context_options :: tc_options where
  "tree_context_options =
     \<lparr>color = False, line_number = True, child_context = False, last_line = False,
      margin = 0, mark_lois = True, loi_pad = 5, show_top_of_file_parent_scope = False\<rparr>"

definition tree_context_header :: "nat \<Rightarrow> pystr" where
  "tree_context_header n =
     (let s = (if n > 1 then str ''s'' else str '''')
      in str ''# Fix the error'' @ s @ str '', see relevant line'' @ s
         @ str '' below marked with '' @ [9608] @ str ''.\<newline>\<newline>'')"

definition tree_context :: "env \<Rightarrow> pystr \<Rightarrow> pystr \<Rightarrow> int list \<Rightarrow> pystr io" where
  "tree_context E fname code line_nums =
     (let line_nums' = set line_nums in
      io_bind (io_call (EvTreeContext fname)
                 (TreeContext E tree_context_options fname code line_nums'))
        (\<lambda>formatted.
           let output = tree_context_header (card line_nums');
               output = output @ (fname @ str '':\<newline>'');
               output = output @ formatted
           in io_ret output))"






section \<open>\<open>basic_lint\<close>\<close>

text \<open>
  \<^verbatim>\<open>
  def basic_lint(fname, code):
      lang = filename_to_lang(fname)
      if not lang:
          return
      parser = get_parser(lang)
      tree = parser.parse(bytes(code, "utf-8"))
      errors = traverse_tree(tree.root_node)
      if not errors:
          return
      return tree_context(fname, code, errors)
  \<close>
  \<open>not lang\<close> holds of \<open>None\<close> and of the empty string.
\<close>

definition basic_lint :: "env \<Rightarrow> pystr \<Rightarrow> pystr \<Rightarrow> pystr option io" where
  "basic_lint E fname code =
     (case filename_to_lang E fname of
        None \<Rightarrow> io_ret None
      | Some lang \<Rightarrow>
          if lang = [] then io_ret None
          else io_bind (io_call (EvParse lang) (parser_parse E lang code))
            (\<lambda>root_node.
               io_bind ([], traverse_tree (stack_room E) root_node)
                 (\<lambda>errors.
                    if errors = [] then io_ret None
                    else io_bind (tree_context E fname code errors)
                           (\<lambda>res. io_ret (Some res)))))"

section \<open>\<open>lint_python_compile\<close>\<close>

text \<open>
  \<open>range(err.lineno - 1, err.end_lineno)\<close>, evaluated left to right: reading an absent
  attribute raises \<open>AttributeError\<close>, \<open>None - 1\<close> and \<open>range(n, None)\<close> raise
  \<open>TypeError\<close>.
\<close>

definition line_numbers_of :: "exc \<Rightarrow> pyerr + int list" where
  "line_numbers_of err =
     (case lineno err of
        Absent \<Rightarrow> Inl AttributeError
      | PyNone \<Rightarrow> Inl TypeError
      | PyInt a \<Rightarrow>
          (case end_lineno err of
             Absent \<Rightarrow> Inl AttributeError
           | PyNone \<Rightarrow> Inl TypeError
           | PyInt b \<Rightarrow> Inr [a - 1 .. b - 1]))"

text \<open>
  \<^verbatim>\<open>
  last_file_i = 0
  for i in range(len(tb_lines)):
      if target in tb_lines[i]:
          last_file_i = i
          break
  \<close>
\<close>

fun last_file_index :: "pystr \<Rightarrow> pystr list \<Rightarrow> nat \<Rightarrow> nat" where
  "last_file_index target [] i = 0"
| "last_file_index target (l # ls) i =
     (if contains target l then i else last_file_index target ls (Suc i))"

text \<open>
  \<^verbatim>\<open>
  def lint_python_compile(fname, code):
      try:
          compile(code, fname, "exec")  # USE TRACEBACK BELOW HERE
          return
      except Exception as err:
          line_numbers = list(range(err.lineno - 1, err.end_lineno))
          tb_lines = traceback.format_exception(type(err), err, err.__traceback__)
          last_file_i = 0
          target = "# USE TRACEBACK"
          target += " BELOW HERE"
          (the loop above)
          tb_lines = tb_lines[:1] + tb_lines[last_file_i + 1 :]
      res = "".join(tb_lines)
      res += "\n"
      res += tree_context(fname, code, line_numbers)
      return res
  \<close>
\<close>

definition filtered_traceback :: "pystr list \<Rightarrow> pystr list" where
  "filtered_traceback tb_lines =
     (let target = str ''# USE TRACEBACK'' @ str '' BELOW HERE'';
          last_file_i = last_file_index target tb_lines 0
      in take 1 tb_lines @ drop (last_file_i + 1) tb_lines)"

definition lint_python_compile :: "env \<Rightarrow> pystr \<Rightarrow> pystr \<Rightarrow> pystr option io" where
  "lint_python_compile E fname code =
     (case compile E code fname of
        Compiled \<Rightarrow> io_call (EvCompile fname) (Inr None)
      | Raised err \<Rightarrow>
          io_bind (io_call (EvCompile fname) (line_numbers_of err))
            (\<lambda>line_numbers.
               let tb_lines = filtered_traceback (format_exception E err);
                   res = concat tb_lines @ str ''\<newline>''
               in io_bind (tree_context E fname code line_numbers)
                    (\<lambda>ctx. io_ret (Some (res @ ctx)))))"

section \<open>The class \<open>Linter\<close>\<close>

text \<open>
  A registered handler is a command template (a string) or a callable taking
  \<open>(fname, rel_fname, code)\<close>.
\<close>

datatype handler =
    Cmd pystr
  | Callable "pystr \<Rightarrow> pystr \<Rightarrow> pystr \<Rightarrow> pystr option io"

record linter =
  encoding :: pystr
  root :: "pystr option"
  languages :: "pystr \<rightharpoonup> handler"

text \<open>
  \<^verbatim>\<open>
  def __init__(self, encoding="utf-8", root=None):
      self.encoding = encoding
      self.root = root
      fatal = "E9,F821,F823,F831,F406,F407,F701,F702,F704,F706"
      py_cmd = f"flake8 --select={fatal} --show-source"  # noqa: F841
      self.languages = dict(
          # python=self.py_lint,
          python="pre-commit run --files"
      )
  def set_linter(self, lang, cmd):
      self.languages[lang] = cmd
  def get_rel_fname(self, fname):
      if self.root:
          return os.path.relpath(fname, self.root)
      else:
          return fname
  \<close>
\<close>

definition Linter_init :: "pystr \<Rightarrow> pystr option \<Rightarrow> linter" where
  "Linter_init enc rt =
     \<lparr>encoding = enc, root = rt,
      languages = [str ''python'' \<mapsto> Cmd (str ''pre-commit run --files'')]\<rparr>"

definition Linter_default :: linter where
  "Linter_default = Linter_init (str ''utf-8'') None"

definition set_linter :: "linter \<Rightarrow> pystr \<Rightarrow> handler \<Rightarrow> linter" where
  "set_linter L lang cmd = L\<lparr>languages := (languages L)(lang \<mapsto> cmd)\<rparr>"

definition get_rel_fname :: "env \<Rightarrow> linter \<Rightarrow> pystr \<Rightarrow> pyerr + pystr" where
  "get_rel_fname E L fname =
     (case root L of
        None \<Rightarrow> Inr fname
      | Some r \<Rightarrow> if r \<noteq> [] then relpath E fname r else Inr fname)"

text \<open>
  \<open>str.split()\<close> with no argument: the maximal runs of characters that are not white
  space, in order; \<open>isspace\<close> lists the code points that Python takes as white space.
\<close>

definition isspace :: "nat \<Rightarrow> bool" where
  "isspace c =
     ((9 \<le> c \<and> c \<le> 13) \<or> (28 \<le> c \<and> c \<le> 32) \<or> c = 133 \<or> c = 160 \<or> c = 5760
      \<or> (8192 \<le> c \<and> c \<le> 8202) \<or> c = 8232 \<or> c = 8233 \<or> c = 8239 \<or> c = 8287
      \<or> c = 12288)"

fun split_from :: "pystr \<Rightarrow> pystr \<Rightarrow> pystr list" where
  "split_from w [] = (if w = [] then [] else [w])"
| "split_from w (c # cs) =
     (if isspace c then (if w = [] then [] else [w]) @ split_from [] cs
      else split_from (w @ [c]) cs)"

definition py_split :: "pystr \<Rightarrow> pystr list" where
  "py_split s = split_from [] s"

text \<open>
  \<^verbatim>\<open>
  def run_cmd(self, cmd, rel_fname):
      cmd += " " + rel_fname
      cmd = cmd.split()
      try:
          subprocess.check_output(cmd, cwd=self.root).decode()
          return  # zero exit status
      except subprocess.CalledProcessError as err:
          errors = err.output.decode()  # non-zero exit status
      res = "# Running: {cmd]\n"
      res += "If the output below indicates errors or problems, fix them.\n"
      res += "But if the command fixed all the issues itself, don't take further action.\n\n"
      res += errors
      return res
  \<close>
  The first line of \<open>res\<close> is not an f-string: the text \<open>{cmd]\<close> is literal. Code point 39
  is the apostrophe.
\<close>

definition run_cmd_argv :: "pystr \<Rightarrow> pystr \<Rightarrow> pystr list" where
  "run_cmd_argv cmd rel_fname = py_split (cmd @ (str '' '' @ rel_fname))"

definition run_cmd_header :: pystr where
  "run_cmd_header =
     str ''# Running: {cmd]\<newline>''
     @ str ''If the output below indicates errors or problems, fix them.\<newline>''
     @ (str ''But if the command fixed all the issues itself, don'' @ [39]
        @ str ''t take further action.\<newline>\<newline>'')"

definition run_cmd :: "env \<Rightarrow> linter \<Rightarrow> pystr \<Rightarrow> pystr \<Rightarrow> pystr option io" where
  "run_cmd E L cmd rel_fname =
     (let cmd = run_cmd_argv cmd rel_fname in
      case check_output E cmd (root L) of
        Completed out \<Rightarrow>
          io_bind (io_call (EvSubprocess cmd) (decode E out)) (\<lambda>_. io_ret None)
      | CalledProcessError rc out \<Rightarrow>
          io_bind (io_call (EvSubprocess cmd) (decode E out))
            (\<lambda>errors. io_ret (Some (run_cmd_header @ errors)))
      | SpawnFault e \<Rightarrow> io_call (EvSubprocess cmd) (Inl e))"

text \<open>
  \<^verbatim>\<open>
  def py_lint(self, fname, rel_fname, code):
      res = basic_lint(rel_fname, code)
      if res:
          return res
      return lint_python_compile(fname, code)
  \<close>
  \<open>if res\<close> holds of a string that is not empty.
\<close>

definition py_lint :: "env \<Rightarrow> pystr \<Rightarrow> pystr \<Rightarrow> pystr \<Rightarrow> pystr option io" where
  "py_lint E fname rel_fname code =
     io_bind (basic_lint E rel_fname code)
       (\<lambda>res. case res of
                 None \<Rightarrow> lint_python_compile E fname code
               | Some r \<Rightarrow> if r \<noteq> [] then io_ret (Some r)
                           else lint_python_compile E fname code)"

text \<open>
  \<^verbatim>\<open>
  def lint(self, fname):
      lang = filename_to_lang(fname)
      if not lang:
          return
      rel_fname = self.get_rel_fname(fname)
      code = Path(fname).read_text(self.encoding)
      cmd = self.languages.get(lang)
      if callable(cmd):
          return cmd(fname, rel_fname, code)
      if cmd:
          return self.run_cmd(cmd, rel_fname)
      return basic_lint(rel_fname, code)
  \<close>
  \<open>if cmd\<close> fails for no entry and for the empty template.
\<close>

definition lint :: "env \<Rightarrow> linter \<Rightarrow> pystr \<Rightarrow> pystr option io" where
  "lint E L fname =
     (case filename_to_lang E fname of
        None \<Rightarrow> io_ret None
      | Some lang \<Rightarrow>
          if lang = [] then io_ret None
          else io_bind ([], get_rel_fname E L fname)
            (\<lambda>rel_fname.
               io_bind (io_call (EvReadText fname) (read_text E fname (encoding L)))
                 (\<lambda>code.
                    case languages L lang of
                      Some (Callable f) \<Rightarrow> f fname rel_fname code
                    | Some (Cmd cmd) \<Rightarrow>
                        if cmd \<noteq> [] then run_cmd E L cmd rel_fname
                        else basic_lint E rel_fname code
                    | None \<Rightarrow> basic_lint E rel_fname code)))"

section \<open>Example inputs\<close>

text \<open>
  The tree that tree-sitter builds for \<open>def f(:\n    pass\n\<close> has an \<open>ERROR\<close> node on its
  first line; \<open>clean_tree\<close> is the tree of \<open>x = 1\<close> and \<open>return_tree\<close> the tree of a lone
  \<open>return\<close>, which parses but does not compile.
\<close>

definition broken_tree :: node where
  "broken_tree =
     Node (str ''module'') False (0, 0)
       [Node (str ''ERROR'') False (0, 0)
          [Node (str ''def'') False (0, 0) [],
           Node (str ''identifier'') False (0, 4) [],
           Node (str ''('') False (0, 5) [],
           Node (str '':'') False (0, 6) []],
        Node (str ''pass_statement'') False (1, 4)
          [Node (str ''pass'') False (1, 4) []]]"

definition clean_tree :: node where
  "clean_tree =
     Node (str ''module'') False (0, 0)
       [Node (str ''expression_statement'') False (0, 0)
          [Node (str ''assignment'') False (0, 0)
             [Node (str ''identifier'') False (0, 0) [],
              Node (str ''='') False (0, 2) [],
              Node (str ''integer'') False (0, 4) []]]]"

definition return_tree :: node where
  "return_tree =
     Node (str ''module'') False (0, 0)
       [Node (str ''return_statement'') False (0, 0)
          [Node (str ''return'') False (0, 0) []]]"

text \<open>
  \<open>x+x+...+x\<close> with 200000 additions: the built-in \<open>compile\<close> gives up on it with a
  \<open>RecursionError\<close>, an exception that has no \<open>lineno\<close>.
\<close>

definition deep_expression :: pystr where
  "deep_expression = str ''x'' @ concat (replicate 200000 (str ''+x''))"

text \<open>
  Trees that are too deep for the interpreter: \<open>nested k inner\<close> wraps \<open>inner\<close> in \<open>k\<close>
  pairs of parentheses, as in the source text \<open>((...(x)...))\<close>, all on the first line.
\<close>

fun nested :: "nat \<Rightarrow> node \<Rightarrow> node" where
  "nested 0 inner = inner"
| "nested (Suc k) inner =
     Node (str ''parenthesized_expression'') False (0, 0) [nested k inner]"

definition deep_source :: pystr where
  "deep_source = replicate 1100 40 @ str ''x'' @ replicate 1100 41"

definition deep_clean_tree :: node where
  "deep_clean_tree =
     Node (str ''module'') False (0, 0)
       [Node (str ''expression_statement'') False (0, 0)
          [nested 1100 (Node (str ''identifier'') False (0, 1100) [])]]"

definition deep_broken_tree :: node where
  "deep_broken_tree =
     Node (str ''module'') False (0, 0)
       [Node (str ''expression_statement'') False (0, 0)
          [nested 1100 (Node (str ''ERROR'') False (0, 1100) [])]]"

text \<open>
  \<open>bytes.decode()\<close>: strict UTF-8. A byte below 128 is its own code point; a lead byte is
  followed by one, two or three continuation bytes; overlong forms, surrogates, code
  points above U+10FFFF and every other byte raise \<open>UnicodeDecodeError\<close>.
\<close>

definition continuation :: "nat \<Rightarrow> bool" where
  "continuation c = (128 \<le> c \<and> c \<le> 191)"

definition decoded :: "nat \<Rightarrow> pyerr + pystr \<Rightarrow> pyerr + pystr" where
  "decoded cp rest = (case rest of Inl e \<Rightarrow> Inl e | Inr s \<Rightarrow> Inr (cp # s))"

fun utf8_decode :: "bytes \<Rightarrow> pyerr + pystr" where
  "utf8_decode [] = Inr []"
| "utf8_decode (b # bs) =
     (if b < 128 then decoded b (utf8_decode bs)
      else if 194 \<le> b \<and> b \<le> 223 then
        (case bs of
           c1 # r \<Rightarrow>
             if continuation c1
             then decoded ((b - 192) * 64 + (c1 - 128)) (utf8_decode r)
             else Inl (Fault (str ''UnicodeDecodeError''))
         | _ \<Rightarrow> Inl (Fault (str ''UnicodeDecodeError'')))
      else if 224 \<le> b \<and> b \<le> 239 then
        (case bs of
           c1 # c2 # r \<Rightarrow>
             let cp = (b - 224) * 4096 + (c1 - 128) * 64 + (c2 - 128) in
             if continuation c1 \<and> continuation c2 \<and> 2048 \<le> cp
                \<and> \<not> (55296 \<le> cp \<and> cp \<le> 57343)
             then decoded cp (utf8_decode r)
             else Inl (Fault (str ''UnicodeDecodeError''))
         | _ \<Rightarrow> Inl (Fault (str ''UnicodeDecodeError'')))
      else if 240 \<le> b \<and> b \<le> 244 then
        (case bs of
           c1 # c2 # c3 # r \<Rightarrow>
             let cp = (b - 240) * 262144 + (c1 - 128) * 4096 + (c2 - 128) * 64 + (c3 - 128) in
             if continuation c1 \<and> continuation c2 \<and> continuation c3
                \<and> 65536 \<le> cp \<and> cp \<le> 1114111
             then decoded cp (utf8_decode r)
             else Inl (Fault (str ''UnicodeDecodeError''))
         | _ \<Rightarrow> Inl (Fault (str ''UnicodeDecodeError'')))
      else Inl (Fault (str ''UnicodeDecodeError'')))"


text \<open>
  A small world to run the module in. \<open>a.py\<close> and \<open>a.js\<close> are known files; the parser
  answers with one of the trees above; the renderer answers with a fixed excerpt; the
  external command fails with status 1 and the output \<open>bad\<close>; 990 nested calls are left
  for the walk of a tree. \<open>compile\<close> behaves as
  CPython 3.11 does on four inputs: a text with a NUL character raises a \<open>SyntaxError\<close>
  whose \<open>lineno\<close> and \<open>end_lineno\<close> are \<open>None\<close>, a lone \<open>return\<close> raises a \<open>SyntaxError\<close> on
  line 1, \<open>deep_expression\<close> raises a \<open>RecursionError\<close>, and \<open>x = 1\<close> compiles.
\<close>

definition demo_format_exception :: "exc \<Rightarrow> pystr list" where
  "demo_format_exception err =
     [str ''Traceback (most recent call last):\<newline>'',
      str ''  File linter.py, line 84, in lint_python_compile\<newline>''
        @ str ''    compile(code, fname, exec)  # USE TRACEBACK BELOW HERE\<newline>'',
      str ''  File a.py, line 1\<newline>'',
      exc_class err @ str ''\<newline>'']"

definition demo_env :: env where
  "demo_env =
     \<lparr>filename_to_lang =
        (\<lambda>f. if f = str ''a.py'' then Some (str ''python'')
             else if f = str ''a.js'' then Some (str ''javascript'')
             else None),
      parser_parse =
        (\<lambda>lang code.
           Inr (if code = str ''def f(:\<newline>    pass\<newline>'' then broken_tree
                else if code = str ''return'' then return_tree
                else clean_tree)),
      TreeContext = (\<lambda>opts fname code lois. Inr (str ''(excerpt)'')),
      relpath = (\<lambda>fname start. Inr fname),
      read_text = (\<lambda>fname enc. Inr (str ''x = 1'')),
      check_output = (\<lambda>argv cwd. CalledProcessError 1 [98, 97, 100]),
      decode = utf8_decode,
      compile =
        (\<lambda>code fname.
           if 0 \<in> set code
           then Raised \<lparr>exc_class = str ''SyntaxError'', lineno = PyNone, end_lineno = PyNone\<rparr>
           else if code = str ''return''
           then Raised \<lparr>exc_class = str ''SyntaxError'', lineno = PyInt 1, end_lineno = PyInt 1\<rparr>
           else if code = deep_expression
           then Raised \<lparr>exc_class = str ''RecursionError'', lineno = Absent, end_lineno = Absent\<rparr>
           else Compiled),
      format_exception = demo_format_exception,
      stack_room = 990\<rparr>"

text \<open>The same world with the file \<open>((...(x)...))\<close>, 1100 pairs of parentheses deep.\<close>

definition deep_env :: env where
  "deep_env =
     demo_env
       \<lparr>read_text := (\<lambda>fname enc. Inr deep_source),
        parser_parse :=
          (\<lambda>lang code. Inr (if code = deep_source then deep_clean_tree else clean_tree))\<rparr>"

section \<open>Computations and their logs\<close>

lemma io_bind_ret [simp]: "io_bind (io_ret x) f = f x"
  by (simp add: io_bind_def io_ret_def split: prod.splits)

lemma io_bind_call_Inr [simp]:
  "io_bind (io_call ev (Inr x)) f = (ev # fst (f x), snd (f x))"
  by (simp add: io_bind_def io_call_def split: prod.splits)

lemma io_bind_call_Inl [simp]: "io_bind (io_call ev (Inl e)) f = ([ev], Inl e)"
  by (simp add: io_bind_def io_call_def)

lemma io_bind_pure_Inr [simp]: "io_bind ([], Inr x) f = f x"
  by (simp add: io_bind_def split: prod.splits)

lemma io_bind_pure_Inl [simp]: "io_bind ([], Inl e) f = ([], Inl e)"
  by (simp add: io_bind_def)

lemma fst_io_ret [simp]: "fst (io_ret x) = []"
  by (simp add: io_ret_def)

lemma snd_io_ret [simp]: "snd (io_ret x) = Inr x"
  by (simp add: io_ret_def)

lemma fst_io_call [simp]: "fst (io_call ev r) = [ev]"
  by (simp add: io_call_def)

lemma snd_io_call [simp]: "snd (io_call ev r) = r"
  by (simp add: io_call_def)

lemma fst_io_bind:
  "fst (io_bind m f) = (case snd m of Inl e \<Rightarrow> fst m | Inr x \<Rightarrow> fst m @ fst (f x))"
  by (cases m) (simp add: io_bind_def split: sum.splits prod.splits)

lemma snd_io_bind:
  "snd (io_bind m f) = (case snd m of Inl e \<Rightarrow> Inl e | Inr x \<Rightarrow> snd (f x))"
  by (cases m) (simp add: io_bind_def split: sum.splits prod.splits)

section \<open>Properties of \<open>traverse_tree\<close>\<close>

lemma foldl_children_Inl:
  "foldl (\<lambda>acc child. case acc of Inl e \<Rightarrow> Inl e
                       | Inr errors \<Rightarrow> (case f child of Inl e \<Rightarrow> Inl e
                                        | Inr found \<Rightarrow> Inr (errors @ found)))
     (Inl e) cs = Inl e"
  by (induction cs) simp_all

lemma foldl_children_ok:
  "\<forall>c \<in> set cs. f c = Inr (g c) \<Longrightarrow>
   foldl (\<lambda>acc child. case acc of Inl e \<Rightarrow> Inl e
                       | Inr errors \<Rightarrow> (case f child of Inl e \<Rightarrow> Inl e
                                        | Inr found \<Rightarrow> Inr (errors @ found)))
     (Inr init) cs = Inr (init @ concat (map g cs))"
  by (induction cs arbitrary: init) simp_all

lemma foldl_children_fail:
  "\<forall>c \<in> set cs. f c = Inl e \<or> (\<exists>r. f c = Inr r) \<Longrightarrow> \<exists>c \<in> set cs. f c = Inl e \<Longrightarrow>
   foldl (\<lambda>acc child. case acc of Inl e \<Rightarrow> Inl e
                       | Inr errors \<Rightarrow> (case f child of Inl e \<Rightarrow> Inl e
                                        | Inr found \<Rightarrow> Inr (errors @ found)))
     (Inr init) cs = Inl e"
proof (induction cs arbitrary: init)
  case Nil
  then show ?case by simp
next
  case (Cons c cs)
  show ?case
  proof (cases "f c")
    case (Inl e')
    with Cons.prems(1) have "e' = e" by auto
    with Inl show ?thesis by (simp add: foldl_children_Inl)
  next
    case (Inr r)
    with Cons.prems have "\<exists>c \<in> set cs. f c = Inl e" by auto
    with Cons.IH [of "init @ r"] Cons.prems(1) Inr show ?thesis by simp
  qed
qed

lemma height_le_Node:
  "height (Node ty missing sp cs) \<le> Suc room \<longleftrightarrow> (\<forall>c \<in> set cs. height c \<le> room)"
  by (simp add: Max_le_iff)

lemma traverse_tree_room:
  "traverse_tree room n =
     (if height n \<le> room then Inr (map start_line (filter is_error (nodes n)))
      else Inl RecursionError)"
proof (induction room arbitrary: n)
  case 0
  show ?case by (cases n) simp
next
  case (Suc room)
  obtain ty missing sp cs where n: "n = Node ty missing sp cs"
    by (cases n)
  have here: "is_error (Node ty missing sp cs) = (ty = str ''ERROR'' \<or> missing)"
    "start_line (Node ty missing sp cs) = fst sp"
    by (simp_all add: is_error_def start_line_def)
  show ?case
  proof (cases "\<forall>c \<in> set cs. height c \<le> room")
    case True
    then have "\<forall>c \<in> set cs. traverse_tree room c = Inr (map start_line (filter is_error (nodes c)))"
      by (simp add: Suc.IH)
    then have "traverse_tree (Suc room) n =
        Inr ((if ty = str ''ERROR'' \<or> missing then [fst sp] else [])
             @ concat (map (\<lambda>c. map start_line (filter is_error (nodes c))) cs))"
      unfolding n traverse_tree.simps
      using foldl_children_ok
              [of cs "traverse_tree room" "\<lambda>c. map start_line (filter is_error (nodes c))"]
      by simp
    moreover have "height n \<le> Suc room"
      using True unfolding n height_le_Node .
    ultimately show ?thesis
      unfolding n by (simp add: here map_concat filter_concat comp_def del: height.simps)
  next
    case False
    then have "\<exists>c \<in> set cs. traverse_tree room c = Inl RecursionError"
      by (auto simp: Suc.IH)
    moreover have "\<forall>c \<in> set cs. traverse_tree room c = Inl RecursionError
        \<or> (\<exists>r. traverse_tree room c = Inr r)"
      by (simp add: Suc.IH)
    ultimately have "traverse_tree (Suc room) n = Inl RecursionError"
      unfolding n traverse_tree.simps by (rule foldl_children_fail [rotated])
    moreover have "\<not> height n \<le> Suc room"
      using False unfolding n height_le_Node .
    ultimately show ?thesis by simp
  qed
qed

lemma traverse_tree_fits:
  "height n \<le> room \<Longrightarrow> traverse_tree room n = Inr (map start_line (filter is_error (nodes n)))"
  by (simp add: traverse_tree_room)

lemma traverse_tree_too_deep:
  "room < height n \<Longrightarrow> traverse_tree room n = Inl RecursionError"
  by (simp add: traverse_tree_room)

lemma error_lines_empty_iff:
  "map start_line (filter is_error (nodes n)) = [] \<longleftrightarrow> (\<forall>m \<in> set (nodes n). \<not> is_error m)"
  by (simp add: filter_empty_conv)

lemma tree_context_set_only:
  "set xs = set ys \<Longrightarrow> tree_context E fname code xs = tree_context E fname code ys"
  by (simp add: tree_context_def)

lemma height_nested: "height (nested k inner) = k + height inner"
  by (induction k) simp_all

lemma error_nodes_nested:
  "filter is_error (nodes (nested k inner)) = filter is_error (nodes inner)"
  by (induction k) (simp_all add: is_error_def str_def)

lemma first_line_nested:
  "list_all (\<lambda>m. 0 \<le> start_line m \<and> start_line m < 1) (nodes inner)
   \<Longrightarrow> list_all (\<lambda>m. 0 \<le> start_line m \<and> start_line m < 1) (nodes (nested k inner))"
  by (induction k) (simp_all add: start_line_def)

lemma height_deep_trees: "height deep_clean_tree = 1103" "height deep_broken_tree = 1103"
  by (simp_all add: deep_clean_tree_def deep_broken_tree_def height_nested)

lemma error_lines_deep_clean_tree: "filter is_error (nodes deep_clean_tree) = []"
  by (simp add: deep_clean_tree_def error_nodes_nested) (simp add: is_error_def str_def)

lemma error_lines_deep_broken_tree:
  "map start_line (filter is_error (nodes deep_broken_tree)) = [0]"
  by (simp add: deep_broken_tree_def error_nodes_nested)
     (simp add: is_error_def start_line_def str_def)

lemma demo_traverse_broken: "traverse_tree (stack_room demo_env) broken_tree = Inr [0]"
proof -
  have "height broken_tree \<le> stack_room demo_env"
    by (simp add: broken_tree_def demo_env_def)
  moreover have "map start_line (filter is_error (nodes broken_tree)) = [0]"
    by (simp add: broken_tree_def is_error_def start_line_def str_def)
  ultimately show ?thesis
    by (simp add: traverse_tree_fits)
qed

lemma demo_traverse_clean: "traverse_tree (stack_room demo_env) clean_tree = Inr []"
proof -
  have "height clean_tree \<le> stack_room demo_env"
    by (simp add: clean_tree_def demo_env_def)
  moreover have "map start_line (filter is_error (nodes clean_tree)) = []"
    by (simp add: clean_tree_def is_error_def str_def)
  ultimately show ?thesis
    by (simp add: traverse_tree_fits)
qed

text \<open>
  C1, as stated, fails: \<open>traverse_tree\<close> does not return for every tree. On
  \<open>deep_broken_tree\<close>, which has one \<open>ERROR\<close> node on line 0 under 1100 nested
  parentheses, a call with room for 990 nested calls raises \<open>RecursionError\<close> instead of
  returning \<open>[0]\<close>.
\<close>

theorem traverse_tree_deep_tree_raises:
  "traverse_tree 990 deep_broken_tree = Inl RecursionError
   \<and> map start_line (filter is_error (nodes deep_broken_tree)) = [0]"
  by (simp add: traverse_tree_too_deep height_deep_trees error_lines_deep_broken_tree)

text \<open>
  C1, amended: for every tree whose number of levels is within the nested calls that
  the interpreter allows, \<open>traverse_tree\<close> returns the starting lines of exactly the nodes
  whose type is \<open>ERROR\<close> or whose missing flag is set, in the order of a walk that visits
  every node (the children of a matching node too); on a deeper tree it raises
  \<open>RecursionError\<close>. The line set is the image of those nodes, and \<open>tree_context\<close>, which
  turns its argument into a set, gives the same result for the list with its duplicates
  removed.
\<close>

theorem traverse_tree_error_lines:
  "(height n \<le> room \<longrightarrow>
      traverse_tree room n = Inr (map start_line (filter is_error (nodes n))))
   \<and> (room < height n \<longrightarrow> traverse_tree room n = Inl RecursionError)
   \<and> set (map start_line (filter is_error (nodes n)))
       = start_line ` {m \<in> set (nodes n). is_error m}
   \<and> tree_context E fname code (map start_line (filter is_error (nodes n)))
       = tree_context E fname code (remdups (map start_line (filter is_error (nodes n))))"
proof -
  have "tree_context E fname code (map start_line (filter is_error (nodes n)))
        = tree_context E fname code (remdups (map start_line (filter is_error (nodes n))))"
    by (rule tree_context_set_only) simp
  then show ?thesis
    by (simp add: traverse_tree_room)
qed

theorem traverse_tree_error_lines_witness:
  "height broken_tree = 3
   \<and> traverse_tree 990 broken_tree = Inr [0]
   \<and> traverse_tree 3 broken_tree = Inr [0]
   \<and> traverse_tree 2 broken_tree = Inl RecursionError"
proof -
  have h: "height broken_tree = 3"
    by (simp add: broken_tree_def)
  have l: "map start_line (filter is_error (nodes broken_tree)) = [0]"
    by (simp add: broken_tree_def is_error_def start_line_def str_def)
  show ?thesis
    using traverse_tree_error_lines [of broken_tree 990]
          traverse_tree_error_lines [of broken_tree 3]
          traverse_tree_error_lines [of broken_tree 2] h l
    by simp
qed

text \<open>
  C8, as stated, fails: every node of \<open>deep_broken_tree\<close> starts on line 0 of a source
  of one line and one node is an \<open>ERROR\<close> node, yet no set of lines is returned: the walk
  started by \<open>basic_lint\<close> raises \<open>RecursionError\<close>.
\<close>

theorem traverse_tree_deep_tree_no_lines:
  "list_all (\<lambda>m. 0 \<le> start_line m \<and> start_line m < 1) (nodes deep_broken_tree)
   \<and> list_ex is_error (nodes deep_broken_tree)
   \<and> traverse_tree (stack_room demo_env) deep_broken_tree = Inl RecursionError
   \<and> basic_lint (demo_env\<lparr>parser_parse := \<lambda>lang code. Inr deep_broken_tree\<rparr>)
        (str ''a.py'') deep_source
     = ([EvParse (str ''python'')], Inl RecursionError)"
proof -
  let ?E = "demo_env\<lparr>parser_parse := \<lambda>lang code. Inr deep_broken_tree\<rparr>"
  have "list_all (\<lambda>m. 0 \<le> start_line m \<and> start_line m < 1)
          (nodes (nested 1100 (Node (str ''ERROR'') False (0, 1100) [])))"
    by (rule first_line_nested) (simp add: start_line_def)
  then have "list_all (\<lambda>m. 0 \<le> start_line m \<and> start_line m < 1) (nodes deep_broken_tree)"
    by (simp add: deep_broken_tree_def start_line_def)
  moreover have "list_ex is_error (nodes deep_broken_tree)"
  proof -
    have "filter is_error (nodes deep_broken_tree) \<noteq> []"
      using error_lines_deep_broken_tree by auto
    then show ?thesis
      by (simp add: list_ex_iff filter_empty_conv)
  qed
  moreover have room: "stack_room ?E = 990" "stack_room demo_env = 990"
    by (simp_all add: demo_env_def)
  moreover have "filename_to_lang ?E (str ''a.py'') = Some (str ''python'')"
    "str ''python'' \<noteq> []"
    by (simp_all add: demo_env_def str_def)
  ultimately show ?thesis
    by (simp add: basic_lint_def traverse_tree_too_deep height_deep_trees)
qed

text \<open>
  C8, amended: when the tree is within the nested calls that the interpreter allows,
  every node of the tree starts on a line of the source (\<open>0 \<le> line < n\<close>, with \<open>n\<close> the
  number of lines) and at least one node is an \<open>ERROR\<close> or missing node, \<open>traverse_tree\<close>
  returns a list that is not empty and whose members all lie in \<open>[0, n)\<close>.
\<close>

theorem traverse_tree_lines_valid:
  assumes "height t \<le> room"
    and "\<forall>m \<in> set (nodes t). 0 \<le> start_line m \<and> start_line m < n"
    and "\<exists>m \<in> set (nodes t). is_error m"
  shows "\<exists>errors. traverse_tree room t = Inr errors \<and> errors \<noteq> []
           \<and> (\<forall>i \<in> set errors. 0 \<le> i \<and> i < n)"
proof -
  let ?errors = "map start_line (filter is_error (nodes t))"
  have "traverse_tree room t = Inr ?errors"
    using assms(1) by (rule traverse_tree_fits)
  moreover have "?errors \<noteq> []"
    using assms(3) by (simp add: filter_empty_conv)
  moreover have "\<forall>i \<in> set ?errors. 0 \<le> i \<and> i < n"
    using assms(2) by auto
  ultimately show ?thesis
    by blast
qed

theorem traverse_tree_lines_valid_witness:
  "height broken_tree \<le> 990
   \<and> list_all (\<lambda>m. 0 \<le> start_line m \<and> start_line m < 2) (nodes broken_tree)
   \<and> list_ex is_error (nodes broken_tree)
   \<and> traverse_tree 990 broken_tree = Inr [0]"
proof -
  have h0: "height broken_tree \<le> 990"
    by (simp add: broken_tree_def)
  have h1: "\<forall>m \<in> set (nodes broken_tree). 0 \<le> start_line m \<and> start_line m < 2"
    by (simp add: broken_tree_def start_line_def)
  have h2: "\<exists>m \<in> set (nodes broken_tree). is_error m"
    by (simp add: broken_tree_def is_error_def)
  have l: "map start_line (filter is_error (nodes broken_tree)) = [0]"
    by (simp add: broken_tree_def is_error_def start_line_def str_def)
  show ?thesis
    using h0 h1 h2 traverse_tree_lines_valid [OF h0 h1 h2] l
    by (simp add: list_all_iff list_ex_iff traverse_tree_fits)
qed

section \<open>Properties of \<open>tree_context\<close> and \<open>basic_lint\<close>\<close>

lemma tree_context_header_nonempty: "tree_context_header n \<noteq> []"
  by (simp add: tree_context_header_def str_def Let_def)

lemma fst_tree_context: "fst (tree_context E fname code ls) = [EvTreeContext fname]"
  by (simp add: tree_context_def Let_def fst_io_bind split: sum.splits)

lemma snd_tree_context:
  "snd (tree_context E fname code ls) =
     (case TreeContext E tree_context_options fname code (set ls) of
        Inl e \<Rightarrow> Inl e
      | Inr formatted \<Rightarrow>
          Inr (tree_context_header (card (set ls)) @ fname @ str '':\<newline>'' @ formatted))"
  by (simp add: tree_context_def Let_def snd_io_bind split: sum.splits)

lemma tree_context_nonempty: "snd (tree_context E fname code ls) = Inr r \<Longrightarrow> r \<noteq> []"
  by (auto simp: snd_tree_context tree_context_header_nonempty split: sum.splits)

lemma basic_lint_no_lang:
  "filename_to_lang E fname = None \<or> filename_to_lang E fname = Some []
   \<Longrightarrow> basic_lint E fname code = ([], Inr None)"
  by (auto simp: basic_lint_def io_ret_def)

lemma basic_lint_parsed:
  assumes "filename_to_lang E fname = Some lang" "lang \<noteq> []"
  shows "basic_lint E fname code =
     (case parser_parse E lang code of
        Inl e \<Rightarrow> ([EvParse lang], Inl e)
      | Inr t \<Rightarrow>
          (case traverse_tree (stack_room E) t of
             Inl e \<Rightarrow> ([EvParse lang], Inl e)
           | Inr errors \<Rightarrow>
               if errors = [] then ([EvParse lang], Inr None)
               else ([EvParse lang, EvTreeContext fname],
                     case snd (tree_context E fname code errors) of
                       Inl e \<Rightarrow> Inl e | Inr r \<Rightarrow> Inr (Some r))))"
  using assms
  by (simp add: basic_lint_def Let_def fst_io_bind snd_io_bind fst_tree_context
           split: sum.splits)

lemma basic_lint_cases:
  obtains "basic_lint E fname code = ([], Inr None)"
  | lang where "filename_to_lang E fname = Some lang" "lang \<noteq> []"
  using basic_lint_no_lang [of E fname code]
  by (cases "filename_to_lang E fname") auto

lemma basic_lint_no_compile: "EvCompile g \<notin> set (fst (basic_lint E fname code))"
proof (cases rule: basic_lint_cases [of E fname code])
  case 1
  then show ?thesis by simp
next
  case (2 lang)
  then show ?thesis
    by (simp add: basic_lint_parsed split: sum.splits)
qed

lemma basic_lint_report_nonempty:
  assumes "snd (basic_lint E fname code) = Inr (Some r)"
  shows "r \<noteq> []"
proof (cases rule: basic_lint_cases [of E fname code])
  case 1
  with assms show ?thesis by simp
next
  case (2 lang)
  with assms show ?thesis
    by (auto simp: basic_lint_parsed tree_context_nonempty split: sum.splits if_splits)
qed

text \<open>
  C6, as stated, fails: \<open>deep_clean_tree\<close>, the tree of the source \<open>((...(x)...))\<close> with
  1100 pairs of parentheses, has no \<open>ERROR\<close> node and no missing node, and \<open>lint\<close> on the
  generic path does not return nothing for it: the walk raises \<open>RecursionError\<close>, which
  neither \<open>basic_lint\<close> nor \<open>lint\<close> catches.
\<close>

theorem deep_clean_source_raises:
  "\<not> list_ex is_error (nodes deep_clean_tree)
   \<and> languages Linter_default (str ''javascript'') = None
   \<and> traverse_tree (stack_room deep_env) deep_clean_tree = Inl RecursionError
   \<and> lint deep_env Linter_default (str ''a.js'')
     = ([EvReadText (str ''a.js''), EvParse (str ''javascript'')], Inl RecursionError)"
proof -
  have room: "stack_room deep_env = 990"
    by (simp add: deep_env_def demo_env_def)
  have walk: "traverse_tree (stack_room deep_env) deep_clean_tree = Inl RecursionError"
    by (simp add: room traverse_tree_too_deep height_deep_trees)
  have lang: "filename_to_lang deep_env (str ''a.js'') = Some (str ''javascript'')"
    "str ''javascript'' \<noteq> []"
    by (simp_all add: deep_env_def demo_env_def str_def)
  have none: "languages Linter_default (str ''javascript'') = None"
    by (simp add: Linter_default_def Linter_init_def str_def)
  have rel: "get_rel_fname deep_env Linter_default (str ''a.js'') = Inr (str ''a.js'')"
    by (simp add: get_rel_fname_def Linter_default_def Linter_init_def)
  have code: "read_text deep_env (str ''a.js'') (encoding Linter_default) = Inr deep_source"
    by (simp add: deep_env_def)
  have tree: "parser_parse deep_env (str ''javascript'') deep_source = Inr deep_clean_tree"
    by (simp add: deep_env_def)
  have "basic_lint deep_env (str ''a.js'') deep_source
      = ([EvParse (str ''javascript'')], Inl RecursionError)"
    by (simp add: basic_lint_parsed [OF lang] tree walk)
  then have "lint deep_env Linter_default (str ''a.js'')
      = ([EvReadText (str ''a.js''), EvParse (str ''javascript'')], Inl RecursionError)"
    using lang none rel code by (simp add: lint_def)
  then show ?thesis
    using none walk error_lines_deep_clean_tree
    by (simp add: list_ex_iff filter_empty_conv)
qed

text \<open>
  C6, amended: when the tree that the parser returns for the source is within the
  nested calls that the interpreter allows and has no \<open>ERROR\<close> node and no missing node,
  \<open>traverse_tree\<close> returns the empty list, \<open>basic_lint\<close> returns nothing, and so does
  \<open>lint\<close> when it takes the generic path for the file (no handler registered for its
  language, or the empty template).
\<close>

theorem clean_source_lint_nothing:
  assumes fits: "height t \<le> stack_room E"
    and clean: "\<forall>m \<in> set (nodes t). \<not> is_error m"
    and lang: "filename_to_lang E fname = Some lang" "lang \<noteq> []"
    and generic: "languages L lang = None \<or> languages L lang = Some (Cmd [])"
    and rel: "get_rel_fname E L fname = Inr rel_fname"
    and code: "read_text E fname (encoding L) = Inr code"
    and rlang: "filename_to_lang E rel_fname = Some rlang" "rlang \<noteq> []"
    and tree: "parser_parse E rlang code = Inr t"
  shows "traverse_tree (stack_room E) t = Inr []
       \<and> snd (basic_lint E rel_fname code) = Inr None
       \<and> snd (lint E L fname) = Inr None"
proof -
  have empty: "traverse_tree (stack_room E) t = Inr []"
    using fits clean by (simp add: traverse_tree_fits filter_empty_conv)
  have basic: "basic_lint E rel_fname code = ([EvParse rlang], Inr None)"
    using rlang tree empty by (simp add: basic_lint_parsed)
  have "lint E L fname = (EvReadText fname # [EvParse rlang], Inr None)"
    using generic lang rel code basic by (auto simp: lint_def)
  with empty basic show ?thesis by simp
qed

theorem clean_source_lint_nothing_witness:
  "height clean_tree \<le> stack_room demo_env
   \<and> \<not> list_ex is_error (nodes clean_tree)
   \<and> traverse_tree (stack_room demo_env) clean_tree = Inr []
   \<and> snd (basic_lint demo_env (str ''a.js'') (str ''x = 1'')) = Inr None
   \<and> snd (lint demo_env Linter_default (str ''a.js'')) = Inr None"
proof -
  have fits: "height clean_tree \<le> stack_room demo_env"
    by (simp add: clean_tree_def demo_env_def)
  have clean: "\<forall>m \<in> set (nodes clean_tree). \<not> is_error m"
    by (simp add: clean_tree_def is_error_def str_def)
  have lang: "filename_to_lang demo_env (str ''a.js'') = Some (str ''javascript'')"
    "str ''javascript'' \<noteq> []"
    by (simp_all add: demo_env_def str_def)
  have generic: "languages Linter_default (str ''javascript'') = None
      \<or> languages Linter_default (str ''javascript'') = Some (Cmd [])"
    by (simp add: Linter_default_def Linter_init_def str_def)
  have rel: "get_rel_fname demo_env Linter_default (str ''a.js'') = Inr (str ''a.js'')"
    by (simp add: get_rel_fname_def Linter_default_def Linter_init_def)
  have code: "read_text demo_env (str ''a.js'') (encoding Linter_default) = Inr (str ''x = 1'')"
    by (simp add: demo_env_def)
  have tree: "parser_parse demo_env (str ''javascript'') (str ''x = 1'') = Inr clean_tree"
    by (simp add: demo_env_def str_def)
  show ?thesis
    using fits clean clean_source_lint_nothing [OF fits clean lang generic rel code lang tree]
    by (simp add: list_ex_iff)
qed






section \<open>Properties of \<open>lint_python_compile\<close>\<close>

lemma lint_python_compile_Compiled:
  "compile E code fname = Compiled
   \<Longrightarrow> lint_python_compile E fname code = ([EvCompile fname], Inr None)"
  by (simp add: lint_python_compile_def io_call_def)

lemma lint_python_compile_Raised:
  "compile E code fname = Raised err \<Longrightarrow>
   lint_python_compile E fname code =
     (case line_numbers_of err of
        Inl e \<Rightarrow> ([EvCompile fname], Inl e)
      | Inr line_numbers \<Rightarrow>
          ([EvCompile fname, EvTreeContext fname],
           case snd (tree_context E fname code line_numbers) of
             Inl e \<Rightarrow> Inl e
           | Inr ctx \<Rightarrow>
               Inr (Some (concat (filtered_traceback (format_exception E err))
                          @ str ''\<newline>'' @ ctx))))"
  by (simp add: lint_python_compile_def Let_def fst_io_bind snd_io_bind fst_tree_context
           split: sum.splits)

lemma lint_python_compile_logs_compile:
  "EvCompile fname \<in> set (fst (lint_python_compile E fname code))"
  by (cases "compile E code fname")
     (simp_all add: lint_python_compile_Compiled lint_python_compile_Raised split: sum.splits)

lemma demo_last_file_index:
  "last_file_index (str ''# USE TRACEBACK'' @ str '' BELOW HERE'') (demo_format_exception e) 0 = 1"
  by (simp add: demo_format_exception_def str_def)

lemma demo_filtered_traceback:
  "filtered_traceback (demo_format_exception e) =
     [str ''Traceback (most recent call last):\<newline>'',
      str ''  File a.py, line 1\<newline>'',
      exc_class e @ str ''\<newline>'']"
  unfolding filtered_traceback_def Let_def demo_last_file_index
  by (simp add: demo_format_exception_def)

text \<open>
  C7: when \<open>compile\<close> raises an exception that reports the lines \<open>a\<close> (start) and \<open>b\<close>
  (end), the captured line numbers are \<open>a - 1, ..., b - 1\<close>: the zero-based indices of all
  lines from \<open>a\<close> to \<open>b\<close> inclusive. For \<open>a = b\<close> this is the one line \<open>a - 1\<close>. These are
  the lines handed to \<open>tree_context\<close>.
\<close>

theorem compile_failure_line_range:
  assumes "compile E code fname = Raised err"
    and "lineno err = PyInt a" and "end_lineno err = PyInt b"
  shows "line_numbers_of err = Inr [a - 1 .. b - 1]
       \<and> set [a - 1 .. b - 1] = (\<lambda>l. l - 1) ` {a .. b}
       \<and> distinct [a - 1 .. b - 1]
       \<and> (a = b \<longrightarrow> [a - 1 .. b - 1] = [a - 1])
       \<and> snd (lint_python_compile E fname code) =
           (case snd (tree_context E fname code [a - 1 .. b - 1]) of
              Inl e \<Rightarrow> Inl e
            | Inr ctx \<Rightarrow>
                Inr (Some (concat (filtered_traceback (format_exception E err))
                           @ str ''\<newline>'' @ ctx)))"
proof -
  have ln: "line_numbers_of err = Inr [a - 1 .. b - 1]"
    using assms(2,3) by (simp add: line_numbers_of_def)
  have "(\<lambda>l. l - 1) ` {a .. b} = {a - 1 .. b - 1}"
    by (auto simp: image_iff intro: bexI [of _ "x + 1" for x])
  then show ?thesis
    using ln assms(1) by (simp add: lint_python_compile_Raised)
qed

theorem compile_failure_line_range_witness:
  "compile demo_env (str ''return'') (str ''a.py'')
     = Raised \<lparr>exc_class = str ''SyntaxError'', lineno = PyInt 1, end_lineno = PyInt 1\<rparr>
   \<and> line_numbers_of \<lparr>exc_class = str ''SyntaxError'', lineno = PyInt 1, end_lineno = PyInt 1\<rparr>
     = Inr [0]
   \<and> snd (lint_python_compile demo_env (str ''a.py'') (str ''return''))
     = Inr (Some (str ''Traceback (most recent call last):\<newline>''
                  @ str ''  File a.py, line 1\<newline>SyntaxError\<newline>\<newline>''
                  @ str ''# Fix the error, see relevant line below marked with '' @ [9608]
                  @ str ''.\<newline>\<newline>a.py:\<newline>(excerpt)''))"
proof -
  let ?err = "\<lparr>exc_class = str ''SyntaxError'', lineno = PyInt 1, end_lineno = PyInt 1\<rparr>"
  have c: "compile demo_env (str ''return'') (str ''a.py'') = Raised ?err"
    by (simp add: demo_env_def str_def)
  have l: "lineno ?err = PyInt 1" "end_lineno ?err = PyInt 1"
    by simp_all
  have "format_exception demo_env = demo_format_exception"
    by (simp add: demo_env_def)
  then have tb: "concat (filtered_traceback (format_exception demo_env ?err))
      = str ''Traceback (most recent call last):\<newline>''
        @ str ''  File a.py, line 1\<newline>SyntaxError\<newline>''"
    by (simp add: demo_filtered_traceback str_def)
  have tc: "snd (tree_context demo_env (str ''a.py'') (str ''return'') [0])
      = Inr (str ''# Fix the error, see relevant line below marked with '' @ [9608]
             @ str ''.\<newline>\<newline>a.py:\<newline>(excerpt)'')"
    by (simp add: snd_tree_context demo_env_def tree_context_header_def str_def)
  show ?thesis
    using c compile_failure_line_range [OF c l] tb tc
    by (simp add: str_def)
qed

text \<open>
  C3: \<open>lint_python_compile\<close> lets a fault escape when the exception raised by \<open>compile\<close>
  does not carry integer line numbers: the handler reads \<open>err.lineno\<close> and
  \<open>err.end_lineno\<close> of whatever \<open>except Exception\<close> caught. A source text with a NUL
  character ends in \<open>TypeError\<close>, and \<open>deep_expression\<close> in \<open>AttributeError\<close>; no report
  string is returned, and the renderer is never reached.
\<close>

theorem lint_python_compile_fault_escapes:
  "lint_python_compile demo_env (str ''a.py'') (str ''x = 1'' @ [0])
     = ([EvCompile (str ''a.py'')], Inl TypeError)
   \<and> lint_python_compile demo_env (str ''a.py'') deep_expression
     = ([EvCompile (str ''a.py'')], Inl AttributeError)"
proof -
  have len: "length deep_expression = 400001"
    by (simp add: deep_expression_def str_def length_concat sum_list_replicate)
  have nul: "0 \<notin> set deep_expression"
    by (auto simp: deep_expression_def str_def)
  have ne: "deep_expression \<noteq> str ''return''"
  proof
    assume "deep_expression = str ''return''"
    then have "length deep_expression = length (str ''return'')"
      by (rule arg_cong)
    with len show False
      by (simp add: str_def)
  qed
  have c1: "compile demo_env (str ''x = 1'' @ [0]) (str ''a.py'')
      = Raised \<lparr>exc_class = str ''SyntaxError'', lineno = PyNone, end_lineno = PyNone\<rparr>"
    by (simp add: demo_env_def)
  have c2: "compile demo_env deep_expression (str ''a.py'')
      = Raised \<lparr>exc_class = str ''RecursionError'', lineno = Absent, end_lineno = Absent\<rparr>"
    using nul ne by (simp add: demo_env_def)
  show ?thesis
    by (simp add: lint_python_compile_Raised [OF c1] lint_python_compile_Raised [OF c2]
                  line_numbers_of_def)
qed

section \<open>The example world\<close>

lemma length_deep_expression: "length deep_expression = 400001"
  by (simp add: deep_expression_def str_def length_concat sum_list_replicate)

lemma short_not_deep_expression: "length c < 400001 \<Longrightarrow> c \<noteq> deep_expression"
  using length_deep_expression by auto

lemma demo_compile_ok: "compile demo_env (str ''x = 1'') (str ''a.py'') = Compiled"
proof -
  have "str ''x = 1'' \<noteq> deep_expression"
    by (rule short_not_deep_expression) (simp add: str_def)
  then show ?thesis
    by (simp add: demo_env_def str_def)
qed

section \<open>Properties of \<open>py_lint\<close>\<close>

lemma py_lint_report:
  assumes "snd (basic_lint E rel_fname code) = Inr (Some r)"
  shows "py_lint E fname rel_fname code = basic_lint E rel_fname code"
proof -
  have "r \<noteq> []"
    using assms by (rule basic_lint_report_nonempty)
  then show ?thesis
    using assms
    by (cases "basic_lint E rel_fname code") (simp add: py_lint_def io_bind_def io_ret_def)
qed

lemma py_lint_fault:
  assumes "snd (basic_lint E rel_fname code) = Inl e"
  shows "py_lint E fname rel_fname code = basic_lint E rel_fname code"
  using assms
  by (cases "basic_lint E rel_fname code") (simp add: py_lint_def io_bind_def)

lemma py_lint_nothing:
  assumes "snd (basic_lint E rel_fname code) = Inr None"
  shows "py_lint E fname rel_fname code =
           (fst (basic_lint E rel_fname code) @ fst (lint_python_compile E fname code),
            snd (lint_python_compile E fname code))"
  using assms
  by (cases "basic_lint E rel_fname code")
     (simp add: py_lint_def io_bind_def split: prod.splits)

text \<open>
  C4: \<open>py_lint\<close> runs \<open>basic_lint\<close> first. When that returns a report (which is never the
  empty string), \<open>py_lint\<close> returns the same report with the same log, and \<open>compile\<close> is
  not called. When it returns nothing, \<open>py_lint\<close> goes on with \<open>lint_python_compile\<close> and
  returns its result. \<open>compile\<close> is called exactly when \<open>basic_lint\<close> returned nothing.
\<close>

theorem py_lint_basic_first:
  "(snd (basic_lint E rel_fname code) = Inr (Some r) \<longrightarrow>
      r \<noteq> []
      \<and> py_lint E fname rel_fname code = basic_lint E rel_fname code
      \<and> EvCompile fname \<notin> set (fst (py_lint E fname rel_fname code)))
   \<and> (snd (basic_lint E rel_fname code) = Inr None \<longrightarrow>
      py_lint E fname rel_fname code =
        (fst (basic_lint E rel_fname code) @ fst (lint_python_compile E fname code),
         snd (lint_python_compile E fname code)))
   \<and> (EvCompile fname \<in> set (fst (py_lint E fname rel_fname code)))
       = (snd (basic_lint E rel_fname code) = Inr None)"
proof -
  have no: "EvCompile fname \<notin> set (fst (basic_lint E rel_fname code))"
    by (rule basic_lint_no_compile)
  have yes: "EvCompile fname \<in> set (fst (lint_python_compile E fname code))"
    by (rule lint_python_compile_logs_compile)
  show ?thesis
  proof (cases "snd (basic_lint E rel_fname code)")
    case (Inl e)
    then show ?thesis
      using no by (simp add: py_lint_fault)
  next
    case (Inr res)
    show ?thesis
    proof (cases res)
      case None
      with Inr show ?thesis
        using yes by (simp add: py_lint_nothing)
    next
      case (Some r')
      with Inr show ?thesis
        using no basic_lint_report_nonempty [of E rel_fname code r']
        by (auto simp: py_lint_report)
    qed
  qed
qed

theorem py_lint_basic_first_witness:
  "snd (basic_lint demo_env (str ''a.py'') (str ''def f(:\<newline>    pass\<newline>''))
     = Inr (Some (str ''# Fix the error, see relevant line below marked with '' @ [9608]
                  @ str ''.\<newline>\<newline>a.py:\<newline>(excerpt)''))
   \<and> py_lint demo_env (str ''a.py'') (str ''a.py'') (str ''def f(:\<newline>    pass\<newline>'')
     = ([EvParse (str ''python''), EvTreeContext (str ''a.py'')],
        Inr (Some (str ''# Fix the error, see relevant line below marked with '' @ [9608]
                   @ str ''.\<newline>\<newline>a.py:\<newline>(excerpt)'')))
   \<and> snd (basic_lint demo_env (str ''a.py'') (str ''x = 1'')) = Inr None
   \<and> py_lint demo_env (str ''a.py'') (str ''a.py'') (str ''x = 1'')
     = ([EvParse (str ''python''), EvCompile (str ''a.py'')], Inr None)"
proof -
  let ?bad = "str ''def f(:\<newline>    pass\<newline>''"
  let ?report = "str ''# Fix the error, see relevant line below marked with '' @ [9608]
                  @ str ''.\<newline>\<newline>a.py:\<newline>(excerpt)''"
  have lang: "filename_to_lang demo_env (str ''a.py'') = Some (str ''python'')"
    "str ''python'' \<noteq> []"
    by (simp_all add: demo_env_def str_def)
  have p1: "parser_parse demo_env (str ''python'') ?bad = Inr broken_tree"
    by (simp add: demo_env_def)
  have p2: "parser_parse demo_env (str ''python'') (str ''x = 1'') = Inr clean_tree"
    by (simp add: demo_env_def str_def)
  have t1: "traverse_tree (stack_room demo_env) broken_tree = Inr [0]"
    by (rule demo_traverse_broken)
  have t2: "traverse_tree (stack_room demo_env) clean_tree = Inr []"
    by (rule demo_traverse_clean)
  have tc: "snd (tree_context demo_env (str ''a.py'') ?bad [0]) = Inr ?report"
    by (simp add: snd_tree_context demo_env_def tree_context_header_def str_def)
  have b1: "basic_lint demo_env (str ''a.py'') ?bad
      = ([EvParse (str ''python''), EvTreeContext (str ''a.py'')], Inr (Some ?report))"
    by (simp add: basic_lint_parsed [OF lang] p1 t1 tc)
  have b2: "basic_lint demo_env (str ''a.py'') (str ''x = 1'')
      = ([EvParse (str ''python'')], Inr None)"
    by (simp add: basic_lint_parsed [OF lang] p2 t2)
  have c: "compile demo_env (str ''x = 1'') (str ''a.py'') = Compiled"
    by (rule demo_compile_ok)
  have l: "lint_python_compile demo_env (str ''a.py'') (str ''x = 1'')
      = ([EvCompile (str ''a.py'')], Inr None)"
    by (rule lint_python_compile_Compiled [OF c])
  show ?thesis
    using py_lint_basic_first [of demo_env "str ''a.py''" ?bad ?report "str ''a.py''"]
          py_lint_basic_first [of demo_env "str ''a.py''" "str ''x = 1''" ?report "str ''a.py''"]
    by (simp add: b1 b2 l)
qed

section \<open>Properties of \<open>run_cmd\<close> and \<open>lint\<close>\<close>

lemma fst_run_cmd:
  "fst (run_cmd E L cmd rel_fname) = [EvSubprocess (run_cmd_argv cmd rel_fname)]"
  by (simp add: run_cmd_def Let_def fst_io_bind split: proc_outcome.splits sum.splits)

lemma snd_run_cmd:
  "snd (run_cmd E L cmd rel_fname) =
     (case check_output E (run_cmd_argv cmd rel_fname) (root L) of
        Completed out \<Rightarrow>
          (case decode E out of Inl e \<Rightarrow> Inl e | Inr text \<Rightarrow> Inr None)
      | CalledProcessError rc out \<Rightarrow>
          (case decode E out of
             Inl e \<Rightarrow> Inl e
           | Inr errors \<Rightarrow> Inr (Some (run_cmd_header @ errors)))
      | SpawnFault e \<Rightarrow> Inl e)"
  by (simp add: run_cmd_def Let_def snd_io_bind split: proc_outcome.splits sum.splits)

lemma lint_no_lang:
  "filename_to_lang E fname = None \<or> filename_to_lang E fname = Some []
   \<Longrightarrow> lint E L fname = ([], Inr None)"
  by (auto simp: lint_def io_ret_def)

lemma lint_dispatch:
  assumes "filename_to_lang E fname = Some lang" "lang \<noteq> []"
    and "get_rel_fname E L fname = Inr rel_fname"
    and "read_text E fname (encoding L) = Inr code"
  shows "lint E L fname =
     (let r = (case languages L lang of
                 Some (Callable f) \<Rightarrow> f fname rel_fname code
               | Some (Cmd cmd) \<Rightarrow>
                   if cmd \<noteq> [] then run_cmd E L cmd rel_fname
                   else basic_lint E rel_fname code
               | None \<Rightarrow> basic_lint E rel_fname code)
      in (EvReadText fname # fst r, snd r))"
  using assms by (simp add: lint_def Let_def)

lemma lint_before_dispatch:
  assumes "filename_to_lang E fname = Some lang" "lang \<noteq> []"
    and "get_rel_fname E L fname = Inl e \<or> read_text E fname (encoding L) = Inl e"
  shows "set (fst (lint E L fname)) \<subseteq> {EvReadText fname}"
  using assms
  by (cases "get_rel_fname E L fname") (auto simp: lint_def)

text \<open>
  C2, as stated, fails. A command that exits with status zero after printing the byte
  \<open>0xFF\<close> does not make \<open>lint\<close> return nothing: \<open>run_cmd\<close> decodes the output of a
  successful command too, and the \<open>UnicodeDecodeError\<close> reaches the caller. And the text
  put in front of the output of a failing command is \<open>run_cmd\<close>'s own, starting with
  \<open># Running\<close>; it is not the header of \<open>tree_context\<close>, and nothing follows the output.
\<close>

theorem lint_external_command_undecodable:
  "lint (demo_env\<lparr>check_output := \<lambda>argv cwd. Completed [255]\<rparr>) Linter_default (str ''a.py'')
     = ([EvReadText (str ''a.py''),
         EvSubprocess [str ''pre-commit'', str ''run'', str ''--files'', str ''a.py'']],
        Inl (Fault (str ''UnicodeDecodeError'')))
   \<and> snd (lint demo_env Linter_default (str ''a.py''))
     = Inr (Some (str ''# Running: {cmd]\<newline>''
                  @ str ''If the output below indicates errors or problems, fix them.\<newline>''
                  @ str ''But if the command fixed all the issues itself, don'' @ [39]
                  @ str ''t take further action.\<newline>\<newline>''
                  @ str ''bad''))
   \<and> \<not> prefix (str ''# Fix the error'') run_cmd_header"
proof -
  let ?E = "demo_env\<lparr>check_output := \<lambda>argv cwd. Completed [255]\<rparr>"
  let ?cmd = "str ''pre-commit run --files''"
  have argv: "run_cmd_argv ?cmd (str ''a.py'')
      = [str ''pre-commit'', str ''run'', str ''--files'', str ''a.py'']"
    by (simp add: run_cmd_argv_def py_split_def isspace_def str_def)
  have lang: "filename_to_lang demo_env (str ''a.py'') = Some (str ''python'')"
    "filename_to_lang ?E (str ''a.py'') = Some (str ''python'')"
    "str ''python'' \<noteq> []"
    by (simp_all add: demo_env_def str_def)
  have h: "languages Linter_default (str ''python'') = Some (Cmd ?cmd)" "?cmd \<noteq> []"
    by (simp_all add: Linter_default_def Linter_init_def str_def)
  have rel: "get_rel_fname demo_env Linter_default (str ''a.py'') = Inr (str ''a.py'')"
    "get_rel_fname ?E Linter_default (str ''a.py'') = Inr (str ''a.py'')"
    by (simp_all add: get_rel_fname_def Linter_default_def Linter_init_def)
  have code: "read_text demo_env (str ''a.py'') (encoding Linter_default) = Inr (str ''x = 1'')"
    "read_text ?E (str ''a.py'') (encoding Linter_default) = Inr (str ''x = 1'')"
    by (simp_all add: demo_env_def)
  have dec: "decode demo_env [98, 97, 100] = Inr (str ''bad'')"
    "decode demo_env [255] = Inl (Fault (str ''UnicodeDecodeError''))"
    by (simp_all add: demo_env_def decoded_def str_def)
  have out: "check_output demo_env argv cwd = CalledProcessError 1 [98, 97, 100]" for argv cwd
    by (simp add: demo_env_def)
  have l1: "lint ?E Linter_default (str ''a.py'')
      = (EvReadText (str ''a.py'') # fst (run_cmd ?E Linter_default ?cmd (str ''a.py'')),
         snd (run_cmd ?E Linter_default ?cmd (str ''a.py'')))"
    by (simp add: lint_dispatch [OF lang(2,3) rel(2) code(2)] h Let_def)
  have l2: "lint demo_env Linter_default (str ''a.py'')
      = (EvReadText (str ''a.py'') # fst (run_cmd demo_env Linter_default ?cmd (str ''a.py'')),
         snd (run_cmd demo_env Linter_default ?cmd (str ''a.py'')))"
    by (simp add: lint_dispatch [OF lang(1,3) rel(1) code(1)] h Let_def)
  have c1: "lint ?E Linter_default (str ''a.py'')
     = ([EvReadText (str ''a.py''),
         EvSubprocess [str ''pre-commit'', str ''run'', str ''--files'', str ''a.py'']],
        Inl (Fault (str ''UnicodeDecodeError'')))"
    by (simp add: l1 fst_run_cmd snd_run_cmd dec argv)
  have c2: "snd (lint demo_env Linter_default (str ''a.py''))
     = Inr (Some (str ''# Running: {cmd]\<newline>''
                  @ str ''If the output below indicates errors or problems, fix them.\<newline>''
                  @ str ''But if the command fixed all the issues itself, don'' @ [39]
                  @ str ''t take further action.\<newline>\<newline>''
                  @ str ''bad''))"
    by (simp add: l2 snd_run_cmd out dec run_cmd_header_def)
  have c3: "\<not> prefix (str ''# Fix the error'') run_cmd_header"
    by (simp add: run_cmd_header_def str_def)
  from c1 c2 c3 show ?thesis
    by (intro conjI)
qed

text \<open>
  C2, amended: when the handler registered for the file's language is a command template
  that \<open>if cmd\<close> accepts (not the empty string) and the output of the command decodes as
  text, \<open>lint\<close> returns nothing if the command exits with status zero, and otherwise the
  decoded output after \<open>run_cmd\<close>'s own header: a comment line that starts with
  \<open># Running\<close>, the two lines of instructions, and an empty line. Nothing follows the
  output. When the output does not decode, the fault of \<open>decode\<close> reaches the caller,
  whatever the exit status. The only calls are the reading of the file and the
  subprocess: nothing is parsed or rendered.
\<close>

theorem lint_external_command:
  assumes "filename_to_lang E fname = Some lang" "lang \<noteq> []"
    and "languages L lang = Some (Cmd cmd)" "cmd \<noteq> []"
    and "get_rel_fname E L fname = Inr rel_fname"
    and "read_text E fname (encoding L) = Inr code"
  shows "(check_output E (run_cmd_argv cmd rel_fname) (root L) = Completed out
            \<and> decode E out = Inr text
            \<longrightarrow> snd (lint E L fname) = Inr None)
       \<and> (check_output E (run_cmd_argv cmd rel_fname) (root L) = CalledProcessError rc out
            \<and> decode E out = Inr text
            \<longrightarrow> snd (lint E L fname)
                = Inr (Some (str ''# Running: {cmd]\<newline>''
                      @ str ''If the output below indicates errors or problems, fix them.\<newline>''
                      @ str ''But if the command fixed all the issues itself, don'' @ [39]
                      @ str ''t take further action.\<newline>\<newline>''
                      @ text)))
       \<and> ((check_output E (run_cmd_argv cmd rel_fname) (root L) = Completed out
             \<or> check_output E (run_cmd_argv cmd rel_fname) (root L) = CalledProcessError rc out)
            \<and> decode E out = Inl e
            \<longrightarrow> snd (lint E L fname) = Inl e)
       \<and> fst (lint E L fname) = [EvReadText fname, EvSubprocess (run_cmd_argv cmd rel_fname)]"
proof -
  have "lint E L fname =
      (EvReadText fname # fst (run_cmd E L cmd rel_fname), snd (run_cmd E L cmd rel_fname))"
    using assms by (simp add: lint_dispatch Let_def)
  moreover have "run_cmd_header
      = str ''# Running: {cmd]\<newline>''
        @ str ''If the output below indicates errors or problems, fix them.\<newline>''
        @ str ''But if the command fixed all the issues itself, don'' @ [39]
        @ str ''t take further action.\<newline>\<newline>''"
    by (simp add: run_cmd_header_def)
  ultimately show ?thesis
    by (auto simp: fst_run_cmd snd_run_cmd)
qed

theorem lint_external_command_witness:
  "lint demo_env Linter_default (str ''a.py'')
     = ([EvReadText (str ''a.py''),
         EvSubprocess [str ''pre-commit'', str ''run'', str ''--files'', str ''a.py'']],
        Inr (Some (run_cmd_header @ str ''bad'')))
   \<and> lint (demo_env\<lparr>check_output := \<lambda>argv cwd. Completed []\<rparr>) Linter_default (str ''a.py'')
     = ([EvReadText (str ''a.py''),
         EvSubprocess [str ''pre-commit'', str ''run'', str ''--files'', str ''a.py'']],
        Inr None)"
proof -
  let ?E = "demo_env\<lparr>check_output := \<lambda>argv cwd. Completed []\<rparr>"
  let ?cmd = "str ''pre-commit run --files''"
  have argv: "run_cmd_argv ?cmd (str ''a.py'')
      = [str ''pre-commit'', str ''run'', str ''--files'', str ''a.py'']"
    by (simp add: run_cmd_argv_def py_split_def isspace_def str_def)
  have lang: "filename_to_lang demo_env (str ''a.py'') = Some (str ''python'')"
    "filename_to_lang ?E (str ''a.py'') = Some (str ''python'')"
    "str ''python'' \<noteq> []"
    by (simp_all add: demo_env_def str_def)
  have h: "languages Linter_default (str ''python'') = Some (Cmd ?cmd)" "?cmd \<noteq> []"
    by (simp_all add: Linter_default_def Linter_init_def str_def)
  have rel: "get_rel_fname demo_env Linter_default (str ''a.py'') = Inr (str ''a.py'')"
    "get_rel_fname ?E Linter_default (str ''a.py'') = Inr (str ''a.py'')"
    by (simp_all add: get_rel_fname_def Linter_default_def Linter_init_def)
  have code: "read_text demo_env (str ''a.py'') (encoding Linter_default) = Inr (str ''x = 1'')"
    "read_text ?E (str ''a.py'') (encoding Linter_default) = Inr (str ''x = 1'')"
    by (simp_all add: demo_env_def)
  have dec: "decode demo_env [98, 97, 100] = Inr (str ''bad'')" "decode ?E [] = Inr []"
    by (simp_all add: demo_env_def decoded_def str_def)
  have out: "check_output demo_env (run_cmd_argv ?cmd (str ''a.py'')) (root Linter_default)
      = CalledProcessError 1 [98, 97, 100]"
    "check_output ?E (run_cmd_argv ?cmd (str ''a.py'')) (root Linter_default) = Completed []"
    by (simp_all add: demo_env_def)
  show ?thesis
    using lint_external_command [OF lang(1) lang(3) h rel(1) code(1),
            of "[98, 97, 100]" "str ''bad''" 1]
          lint_external_command [OF lang(2) lang(3) h rel(2) code(2), of "[]" "[]" 1]
          out dec argv
    by (simp add: prod_eq_iff run_cmd_header_def)
qed

text \<open>
  C9: the registry of a freshly constructed \<open>Linter\<close> has the one entry \<open>python\<close>, bound to
  the template \<open>pre-commit run --files\<close>. So \<open>lint\<close> sends a Python file to \<open>run_cmd\<close> with
  that template, and no call of \<open>lint\<close> on such a linter ever reaches \<open>compile\<close>, whatever
  the file. Once \<open>py_lint\<close> has been installed for \<open>python\<close> with \<open>set_linter\<close>, a Python
  file is sent to \<open>py_lint\<close>.
\<close>

theorem default_linter_registry:
  "languages (Linter_init enc rt) = [str ''python'' \<mapsto> Cmd (str ''pre-commit run --files'')]
   \<and> dom (languages (Linter_init enc rt)) = {str ''python''}
   \<and> (filename_to_lang E fname = Some (str ''python'') \<longrightarrow>
        lint E (Linter_init enc rt) fname =
          io_bind ([], get_rel_fname E (Linter_init enc rt) fname)
            (\<lambda>rel_fname.
               io_bind (io_call (EvReadText fname) (read_text E fname enc))
                 (\<lambda>code. run_cmd E (Linter_init enc rt) (str ''pre-commit run --files'')
                            rel_fname)))
   \<and> EvCompile g \<notin> set (fst (lint E (Linter_init enc rt) fname))
   \<and> (filename_to_lang E fname = Some (str ''python'') \<longrightarrow>
        lint E (set_linter (Linter_init enc rt) (str ''python'') (Callable (py_lint E))) fname =
          io_bind ([], get_rel_fname E (Linter_init enc rt) fname)
            (\<lambda>rel_fname.
               io_bind (io_call (EvReadText fname) (read_text E fname enc))
                 (\<lambda>code. py_lint E fname rel_fname code)))"
proof -
  let ?L = "Linter_init enc rt"
  let ?cmd = "str ''pre-commit run --files''"
  have py: "str ''python'' \<noteq> []" and cmd: "?cmd \<noteq> []"
    by (simp_all add: str_def)
  have reg: "languages ?L = [str ''python'' \<mapsto> Cmd ?cmd]"
    by (simp add: Linter_init_def)
  have enc: "encoding ?L = enc"
    by (simp add: Linter_init_def)
  have rel: "get_rel_fname E (set_linter ?L k h) fname = get_rel_fname E ?L fname" for k h
    by (simp add: get_rel_fname_def set_linter_def)
  have a: "filename_to_lang E fname = Some (str ''python'') \<Longrightarrow>
      lint E ?L fname =
        io_bind ([], get_rel_fname E ?L fname)
          (\<lambda>rel_fname. io_bind (io_call (EvReadText fname) (read_text E fname enc))
             (\<lambda>code. run_cmd E ?L ?cmd rel_fname))"
    using py cmd by (simp add: lint_def reg enc)
  have b: "filename_to_lang E fname = Some (str ''python'') \<Longrightarrow>
      lint E (set_linter ?L (str ''python'') (Callable (py_lint E))) fname =
        io_bind ([], get_rel_fname E ?L fname)
          (\<lambda>rel_fname. io_bind (io_call (EvReadText fname) (read_text E fname enc))
             (\<lambda>code. py_lint E fname rel_fname code))"
    using py by (simp add: lint_def rel) (simp add: set_linter_def Linter_init_def)
  have c: "EvCompile g \<notin> set (fst (lint E ?L fname))"
  proof (cases "filename_to_lang E fname = None \<or> filename_to_lang E fname = Some []")
    case True
    then show ?thesis by (simp add: lint_no_lang)
  next
    case False
    then obtain lang where lang: "filename_to_lang E fname = Some lang" "lang \<noteq> []"
      by (cases "filename_to_lang E fname") auto
    show ?thesis
    proof (cases "get_rel_fname E ?L fname")
      case (Inl e)
      then show ?thesis
        using lint_before_dispatch [OF lang, of ?L e] by auto
    next
      case rel: (Inr rel_fname)
      show ?thesis
      proof (cases "read_text E fname (encoding ?L)")
        case (Inl e)
        then show ?thesis
          using lint_before_dispatch [OF lang, of ?L e] by auto
      next
        case (Inr code)
        show ?thesis
          using basic_lint_no_compile [of g E rel_fname code] cmd
          by (simp add: lint_dispatch [OF lang rel Inr] Let_def reg fst_run_cmd)
      qed
    qed
  qed
  have "dom (languages ?L) = {str ''python''}"
    by (simp add: reg)
  with reg a b c show ?thesis
    by blast
qed

theorem default_linter_registry_witness:
  "languages Linter_default (str ''python'') = Some (Cmd (str ''pre-commit run --files''))
   \<and> languages Linter_default (str ''javascript'') = None
   \<and> fst (lint demo_env Linter_default (str ''a.py''))
     = [EvReadText (str ''a.py''),
        EvSubprocess [str ''pre-commit'', str ''run'', str ''--files'', str ''a.py'']]
   \<and> fst (lint demo_env
             (set_linter Linter_default (str ''python'') (Callable (py_lint demo_env)))
             (str ''a.py''))
     = [EvReadText (str ''a.py''), EvParse (str ''python''), EvCompile (str ''a.py'')]"
proof -
  let ?cmd = "str ''pre-commit run --files''"
  have lang: "filename_to_lang demo_env (str ''a.py'') = Some (str ''python'')"
    by (simp add: demo_env_def str_def)
  have py: "str ''python'' \<noteq> []" "str ''javascript'' \<noteq> str ''python''"
    by (simp_all add: str_def)
  have rel: "get_rel_fname demo_env (Linter_init (str ''utf-8'') None) (str ''a.py'')
      = Inr (str ''a.py'')"
    by (simp add: get_rel_fname_def Linter_init_def)
  have code: "read_text demo_env (str ''a.py'') (str ''utf-8'') = Inr (str ''x = 1'')"
    by (simp add: demo_env_def)
  have argv: "run_cmd_argv ?cmd (str ''a.py'')
      = [str ''pre-commit'', str ''run'', str ''--files'', str ''a.py'']"
    by (simp add: run_cmd_argv_def py_split_def isspace_def str_def)
  have p2: "parser_parse demo_env (str ''python'') (str ''x = 1'') = Inr clean_tree"
    by (simp add: demo_env_def str_def)
  have t2: "traverse_tree (stack_room demo_env) clean_tree = Inr []"
    by (rule demo_traverse_clean)
  have b2: "basic_lint demo_env (str ''a.py'') (str ''x = 1'')
      = ([EvParse (str ''python'')], Inr None)"
    by (simp add: basic_lint_parsed [OF lang py(1)] p2 t2)
  have c: "compile demo_env (str ''x = 1'') (str ''a.py'') = Compiled"
    by (rule demo_compile_ok)
  have pl: "py_lint demo_env (str ''a.py'') (str ''a.py'') (str ''x = 1'')
      = ([EvParse (str ''python''), EvCompile (str ''a.py'')], Inr None)"
    by (simp add: py_lint_nothing b2 lint_python_compile_Compiled [OF c])
  show ?thesis
    using default_linter_registry [of "str ''utf-8''" None demo_env "str ''a.py''"] lang py
    by (simp add: Linter_default_def rel code pl fst_run_cmd argv)
qed

section \<open>Properties of \<open>py_split\<close> and the argument vector of \<open>run_cmd\<close>\<close>

lemma split_from_append_space:
  "isspace sp \<Longrightarrow> split_from w (a @ sp # b) = split_from w a @ split_from [] b"
  by (induction a arbitrary: w) simp_all

lemma py_split_append_space:
  "py_split (a @ (str '' '' @ b)) = py_split a @ py_split b"
proof -
  have "isspace 32"
    by (simp add: isspace_def)
  then show ?thesis
    using split_from_append_space [of 32 "[]" a b]
    by (simp add: py_split_def str_def)
qed

lemma split_from_words:
  "u \<in> set (split_from w s) \<Longrightarrow> list_all (\<lambda>c. \<not> isspace c) w
   \<Longrightarrow> u \<noteq> [] \<and> list_all (\<lambda>c. \<not> isspace c) u"
proof (induction s arbitrary: w)
  case Nil
  then show ?case by (auto split: if_splits)
next
  case (Cons c cs)
  show ?case
  proof (cases "isspace c")
    case True
    with Cons.prems have "u = w \<and> w \<noteq> [] \<or> u \<in> set (split_from [] cs)"
      by (auto split: if_splits)
    then show ?thesis
      using Cons.IH [of "[]"] Cons.prems(2) by auto
  next
    case False
    with Cons.prems have "u \<in> set (split_from (w @ [c]) cs)"
      by simp
    then show ?thesis
      using Cons.IH [of "w @ [c]"] Cons.prems(2) False by simp
  qed
qed

lemma py_split_words:
  "u \<in> set (py_split s) \<Longrightarrow> u \<noteq> [] \<and> list_all (\<lambda>c. \<not> isspace c) u"
  using split_from_words [of u "[]" s] by (simp add: py_split_def)

lemma split_from_pending: "w \<noteq> [] \<Longrightarrow> split_from w s \<noteq> []"
  by (induction s arbitrary: w) simp_all

lemma split_from_some_word: "\<not> list_all isspace s \<Longrightarrow> split_from w s \<noteq> []"
  by (induction s arbitrary: w) (auto simp: split_from_pending)

lemma py_split_some_word: "\<not> list_all isspace s \<Longrightarrow> py_split s \<noteq> []"
  by (simp add: py_split_def split_from_some_word)

text \<open>
  C10, as stated, fails: the file name \<open> a.py\<close> (a leading space) contains a space, and it
  reaches the subprocess as the single argument \<open>a.py\<close>; the argument vector is the one
  built for the file \<open>a.py\<close>.
\<close>

theorem run_cmd_argv_leading_space:
  "32 \<in> set (str '' a.py'')
   \<and> run_cmd_argv (str ''pre-commit run --files'') (str '' a.py'')
     = [str ''pre-commit'', str ''run'', str ''--files'', str ''a.py'']
   \<and> py_split (str '' a.py'') = [str ''a.py'']
   \<and> run_cmd_argv (str ''pre-commit run --files'') (str '' a.py'')
     = run_cmd_argv (str ''pre-commit run --files'') (str ''a.py'')"
  by (simp add: run_cmd_argv_def py_split_def isspace_def str_def)

text \<open>
  C10, amended: the argument vector of \<open>run_cmd\<close> is the template, a space and the file
  name, split at white space, which is the words of the template followed by the words
  of the file name. No argument is empty or contains white space, so a file name with a
  space in it is never one of the arguments; when characters other than white space
  stand on both sides of a space in the name, the name gives two arguments or more.
\<close>

theorem run_cmd_argv_splits_file_name:
  "run_cmd_argv cmd rel_fname = py_split (cmd @ str '' '' @ rel_fname)
   \<and> run_cmd_argv cmd rel_fname = py_split cmd @ py_split rel_fname
   \<and> list_all (\<lambda>u. u \<noteq> [] \<and> list_all (\<lambda>c. \<not> isspace c) u) (run_cmd_argv cmd rel_fname)
   \<and> (32 \<in> set rel_fname \<longrightarrow> rel_fname \<notin> set (run_cmd_argv cmd rel_fname))
   \<and> (rel_fname = u @ [32] @ v \<and> \<not> list_all isspace u \<and> \<not> list_all isspace v
        \<longrightarrow> 2 \<le> length (py_split rel_fname))"
proof -
  have sp: "isspace 32"
    by (simp add: isspace_def)
  have "\<forall>u \<in> set (run_cmd_argv cmd rel_fname). u \<noteq> [] \<and> list_all (\<lambda>c. \<not> isspace c) u"
    unfolding run_cmd_argv_def using py_split_words by blast
  then have words: "list_all (\<lambda>u. u \<noteq> [] \<and> list_all (\<lambda>c. \<not> isspace c) u)
                 (run_cmd_argv cmd rel_fname)"
    by (simp add: list_all_iff)
  have never: "rel_fname \<notin> set (run_cmd_argv cmd rel_fname)" if "32 \<in> set rel_fname"
  proof
    assume "rel_fname \<in> set (run_cmd_argv cmd rel_fname)"
    then have "list_all (\<lambda>c. \<not> isspace c) rel_fname"
      unfolding run_cmd_argv_def using py_split_words by blast
    with that sp show False
      by (auto simp: list_all_iff)
  qed
  have two: "2 \<le> length (py_split rel_fname)"
    if "rel_fname = u @ [32] @ v" "\<not> list_all isspace u" "\<not> list_all isspace v"
  proof -
    have "py_split rel_fname = py_split u @ py_split v"
      using that(1) split_from_append_space [OF sp, of "[]" u v] by (simp add: py_split_def)
    moreover have "py_split u \<noteq> []" "py_split v \<noteq> []"
      using that(2,3) by (simp_all add: py_split_some_word)
    ultimately show ?thesis
      by (cases "py_split u"; cases "py_split v") simp_all
  qed
  show ?thesis
    using words never two
    by (simp add: run_cmd_argv_def py_split_append_space)
qed

theorem run_cmd_argv_splits_file_name_witness:
  "str ''my file.py'' = str ''my'' @ [32] @ str ''file.py''
   \<and> 32 \<in> set (str ''my file.py'')
   \<and> run_cmd_argv (str ''pre-commit run --files'') (str ''my file.py'')
     = [str ''pre-commit'', str ''run'', str ''--files'', str ''my'', str ''file.py'']
   \<and> str ''my file.py'' \<notin> set (run_cmd_argv (str ''pre-commit run --files'') (str ''my file.py''))
   \<and> 2 \<le> length (py_split (str ''my file.py''))"
proof -
  have e: "str ''my file.py'' = str ''my'' @ [32] @ str ''file.py''"
    by (simp add: str_def)
  have m: "32 \<in> set (str ''my file.py'')"
    by (simp add: str_def)
  have n: "\<not> list_all isspace (str ''my'')" "\<not> list_all isspace (str ''file.py'')"
    by (simp_all add: isspace_def str_def)
  have a: "run_cmd_argv (str ''pre-commit run --files'') (str ''my file.py'')
      = [str ''pre-commit'', str ''run'', str ''--files'', str ''my'', str ''file.py'']"
    by (simp add: run_cmd_argv_def py_split_def isspace_def str_def)
  show ?thesis
    using run_cmd_argv_splits_file_name
            [of "str ''pre-commit run --files''" "str ''my file.py''" "str ''my''"
                "str ''file.py''"]
          n a
    by (simp add: str_def)
qed


end
